theory Spec2Isabelle
  imports Main "HOL-Library.Sublist"
begin

section \<open>Python strings\<close>

text \<open>
  A Python \<open>str\<close> is modelled as a \<open>string\<close>; a \<open>char\<close> stands for a code point
  below 256.  A value that may be \<open>None\<close> is an \<open>option\<close>.
\<close>

text \<open>\<open>x in s\<close> for two strings: \<open>x\<close> occurs in \<open>s\<close> as a contiguous substring.\<close>

fun contains :: "string \<Rightarrow> string \<Rightarrow> bool" where
  "contains x [] = (x = [])"
| "contains x (c # cs) = (prefix x (c # cs) \<or> contains x cs)"

text \<open>\<open>s.endswith(suf)\<close>.\<close>

definition endswith :: "string \<Rightarrow> string \<Rightarrow> bool" where
  "endswith s suf = prefix (rev suf) (rev s)"

text \<open>\<open>s.lower()\<close> on code points below 256: the ASCII capitals and the Latin-1 capitals
  (0xC0 to 0xDE without the multiplication sign 0xD7) move up by 32.\<close>

definition lower_char :: "char \<Rightarrow> char" where
  "lower_char c = (let n = (of_char c :: nat) in
     if (65 \<le> n \<and> n \<le> 90) \<or> (192 \<le> n \<and> n \<le> 222 \<and> n \<noteq> 215)
     then char_of (n + 32) else c)"

definition lower :: "string \<Rightarrow> string" where
  "lower s = map lower_char s"

text \<open>Truth value of an optional string in a condition: \<open>None\<close> and \<open>''\<close> are false.\<close>

fun truthy :: "string option \<Rightarrow> bool" where
  "truthy None = False"
| "truthy (Some s) = (s \<noteq> [])"

section \<open>Regular expressions\<close>

text \<open>
  The fragment of Python's \<open>re\<close> syntax that the plugin's patterns are written in:
  literal text, a starred character set (\<open>[^c]*\<close> or \<open>\s*\<close>), the anchors \<open>^\<close> and \<open>$\<close>,
  concatenation and alternation.  Groups only bracket and are not represented.
\<close>

datatype cset = Except char | Space

datatype regex = Lit string | Star cset | Bol | Eol | Seq regex regex | Alt regex regex

text \<open>\<open>\s\<close> on a \<open>str\<close> pattern: the Unicode whitespace below 256.\<close>

definition is_space :: "char \<Rightarrow> bool" where
  "is_space c = (let n = (of_char c :: nat) in
     (9 \<le> n \<and> n \<le> 13) \<or> (28 \<le> n \<and> n \<le> 32) \<or> n = 133 \<or> n = 160)"

fun in_cset :: "cset \<Rightarrow> char \<Rightarrow> bool" where
  "in_cset (Except x) c = (c \<noteq> x)"
| "in_cset Space c = is_space c"

text \<open>With \<open>re.IGNORECASE\<close> a literal character matches its other case as well.\<close>

definition chr_eq :: "bool \<Rightarrow> char \<Rightarrow> char \<Rightarrow> bool" where
  "chr_eq ic p c = (if ic then lower_char p = lower_char c else p = c)"

fun lit_match :: "bool \<Rightarrow> string \<Rightarrow> (bool \<Rightarrow> string \<Rightarrow> bool) \<Rightarrow> bool \<Rightarrow> string \<Rightarrow> bool" where
  "lit_match ic [] k b s = k b s"
| "lit_match ic (p # ps) k b [] = False"
| "lit_match ic (p # ps) k b (c # cs) = (chr_eq ic p c \<and> lit_match ic ps k False cs)"

fun star_match :: "(char \<Rightarrow> bool) \<Rightarrow> (bool \<Rightarrow> string \<Rightarrow> bool) \<Rightarrow> bool \<Rightarrow> string \<Rightarrow> bool" where
  "star_match P k b [] = k b []"
| "star_match P k b (c # cs) = (k b (c # cs) \<or> (P c \<and> star_match P k False cs))"

text \<open>
  A backtracking matcher in continuation style: \<open>rmatch ic r k b s\<close> holds when \<open>r\<close> matches
  a prefix of \<open>s\<close> and the continuation \<open>k\<close> accepts what is left.  The flag \<open>b\<close> says that
  the position is the start of the searched string (for \<open>^\<close>); \<open>$\<close> matches at the end and
  before a final newline.
\<close>

fun rmatch :: "bool \<Rightarrow> regex \<Rightarrow> (bool \<Rightarrow> string \<Rightarrow> bool) \<Rightarrow> bool \<Rightarrow> string \<Rightarrow> bool" where
  "rmatch ic (Lit l) k b s = lit_match ic l k b s"
| "rmatch ic (Star cs) k b s = star_match (in_cset cs) k b s"
| "rmatch ic Bol k b s = (b \<and> k b s)"
| "rmatch ic Eol k b s = ((s = [] \<or> s = [CHR 0x0A]) \<and> k b s)"
| "rmatch ic (Seq r1 r2) k b s = rmatch ic r1 (rmatch ic r2 k) b s"
| "rmatch ic (Alt r1 r2) k b s = (rmatch ic r1 k b s \<or> rmatch ic r2 k b s)"

text \<open>\<open>pattern.search(s)\<close>, as a truth value: the pattern matches at some position.\<close>

fun search_from :: "bool \<Rightarrow> regex \<Rightarrow> bool \<Rightarrow> string \<Rightarrow> bool" where
  "search_from ic r b [] = rmatch ic r (\<lambda>_ _. True) b []"
| "search_from ic r b (c # cs) =
     (rmatch ic r (\<lambda>_ _. True) b (c # cs) \<or> search_from ic r False cs)"

definition re_search :: "bool \<Rightarrow> regex \<Rightarrow> string \<Rightarrow> bool" where
  "re_search ic r s = search_from ic r True s"

section \<open>The host's views and the check's verdict\<close>

text \<open>
  The spec view and the built-package view are supplied by the review host; the plugin
  only reads them.  \<open>requires\<close> is \<open>get_requires(pkg)\<close> (\<open>None\<close> for the call without an
  argument), \<open>expand_arch\<close> is \<open>expand_tag('arch', pkg)\<close>, and \<open>str_ignorecase\<close> is the
  flag with which the host compiles a pattern that is handed to it as a string.
\<close>

record spec_file =
  name :: string
  version :: string
  packages :: "string list"
  build_requires :: "string list"
  requires :: "string option \<Rightarrow> string list"
  lines :: "string list"
  expand_arch :: "string \<Rightarrow> string option"
  str_ignorecase :: bool

record rpms =
  containers :: "string list"
  filelist :: "string \<Rightarrow> string list"

datatype verdict = PASS | FAIL | PENDING | NA

record check =
  result :: "verdict option"
  output_extra :: "string option"

text \<open>A pattern reaches \<open>find_re\<close> either as a string or compiled by the plugin (without flags).\<close>

datatype pattern = Str regex | Compiled regex

text \<open>Modelled from the spec: the host's \<open>find_re\<close>, "a generic regex-search-over-spec-text
  operation".  It gives the first line of the spec text in which the pattern is found,
  or \<open>None\<close>.\<close>

fun find_re :: "spec_file \<Rightarrow> pattern \<Rightarrow> string option" where
  "find_re sp (Str r) = find (re_search (str_ignorecase sp) r) (lines sp)"
| "find_re sp (Compiled r) = find (re_search False r) (lines sp)"

text \<open>Modelled from the spec: the host's glob match of a file name against a pattern, in
  which \<open>*\<close> stands for any text and \<open>?\<close> for any one character.\<close>

fun fnmatch :: "string \<Rightarrow> string \<Rightarrow> bool" where
  "fnmatch [] [] = True"
| "fnmatch (c # cs) [] = False"
| "fnmatch [] (p # ps) = (p = CHR ''*'' \<and> fnmatch [] ps)"
| "fnmatch (c # cs) (p # ps) =
     (if p = CHR ''*'' then fnmatch (c # cs) ps \<or> fnmatch cs (p # ps)
      else (p = CHR ''?'' \<or> p = c) \<and> fnmatch cs ps)"

text \<open>Modelled from the spec: the host's "file-glob search within a subpackage's file
  list"; without a subpackage every container is searched.  \<open>find_all\<close> gives every
  matching file, \<open>find\<close> the first one or \<open>None\<close>.\<close>

definition rpms_find_all :: "rpms \<Rightarrow> string \<Rightarrow> string option \<Rightarrow> string list" where
  "rpms_find_all r pat cont =
     filter (\<lambda>f. fnmatch f pat)
       (case cont of Some c \<Rightarrow> filelist r c
        | None \<Rightarrow> concat (map (filelist r) (containers r)))"

definition rpms_find :: "rpms \<Rightarrow> string \<Rightarrow> string option \<Rightarrow> string option" where
  "rpms_find r pat cont = (case rpms_find_all r pat cont of [] \<Rightarrow> None | f # _ \<Rightarrow> Some f)"

text \<open>Modelled from the spec: the host's \<open>set_passed\<close> records the verdict and the optional
  explanation in the check; a boolean outcome is recorded as PASS (true) or FAIL (false).\<close>

definition set_passed :: "verdict \<Rightarrow> string option \<Rightarrow> check \<Rightarrow> check" where
  "set_passed v e c = c\<lparr>result := Some v, output_extra := e\<rparr>"

definition of_flag :: "bool \<Rightarrow> verdict" where
  "of_flag b = (if b then PASS else FAIL)"

section \<open>JavaCheckBase\<close>

definition is_maven_pkg :: "spec_file \<Rightarrow> bool" where
  "is_maven_pkg sp = list_ex (\<lambda>build_r. contains ''maven-local'' build_r) (build_requires sp)"

text \<open>The pattern \<open>([^#]*%mvn_build)|([^#]*%mvn_install)\<close>.\<close>

definition xmvn_regex :: regex where
  "xmvn_regex = Alt (Seq (Star (Except CHR ''#'')) (Lit ''%mvn_build''))
                    (Seq (Star (Except CHR ''#'')) (Lit ''%mvn_install''))"

definition is_xmvn_pkg :: "spec_file \<Rightarrow> string option" where
  "is_xmvn_pkg sp = find_re sp (Str xmvn_regex)"

definition get_javadoc_sub :: "spec_file \<Rightarrow> string option" where
  "get_javadoc_sub sp = find (\<lambda>pkg. endswith pkg ''-javadoc'') (packages sp)"

section \<open>CheckNewStyleMaven\<close>

definition CheckNewStyleMaven_run :: "spec_file \<Rightarrow> check \<Rightarrow> check" where
  "CheckNewStyleMaven_run sp c =
     (if is_maven_pkg sp \<and> truthy (is_xmvn_pkg sp) then set_passed PASS None c
      else if is_maven_pkg sp then
        set_passed FAIL (Some ''If possible update your package to latest guidelines'') c
      else set_passed NA None c)"

text \<open>
  \<open>_search_previous_line(section, trigger, pivot, judge)\<close>.  The three patterns arrive
  compiled and only their \<open>search\<close> is called, so each is taken as the truth value of
  \<open>pattern.search(line)\<close>.  The loop runs over the reversed section with its two flags;
  the function gives back the returned value (\<open>None\<close>, \<open>True\<close> or \<open>False\<close>) and the check.
\<close>

text \<open>The pattern \<open>^\s*$\<close>.\<close>

definition empty_regex :: regex where
  "empty_regex = Seq Bol (Seq (Star Space) Eol)"

fun scan_lines ::
  "(string \<Rightarrow> bool) \<Rightarrow> (string \<Rightarrow> bool) \<Rightarrow> (string \<Rightarrow> bool) \<Rightarrow> bool \<Rightarrow> bool \<Rightarrow>
   string list \<Rightarrow> check \<Rightarrow> bool option \<times> check" where
  "scan_lines trigger pivot judge found_trigger found_pivot [] c = (None, c)"
| "scan_lines trigger pivot judge found_trigger found_pivot (line # rest) c =
     (if (found_trigger \<or> trigger line) \<and> pivot line
      then scan_lines trigger pivot judge True True rest c
      else if found_pivot \<and> \<not> re_search False empty_regex line
      then (if judge line then (Some True, c)
            else (Some False, set_passed FAIL None c))
      else scan_lines trigger pivot judge (found_trigger \<or> trigger line) found_pivot rest c)"

definition search_previous_line ::
  "string list \<Rightarrow> (string \<Rightarrow> bool) \<Rightarrow> (string \<Rightarrow> bool) \<Rightarrow> (string \<Rightarrow> bool) \<Rightarrow>
   check \<Rightarrow> bool option \<times> check" where
  "search_previous_line section trigger pivot judge c =
     scan_lines trigger pivot judge False False (rev section) c"

section \<open>CheckJavadoc\<close>

definition CheckJavadoc_run_on_applicable :: "spec_file \<Rightarrow> rpms \<Rightarrow> check \<Rightarrow> check" where
  "CheckJavadoc_run_on_applicable sp r c =
     (let pkg = get_javadoc_sub sp in
      if \<not> truthy pkg then
        set_passed FAIL
          (Some (''No javadoc subpackage present. ''
               @ ''Note: Javadocs are optional for Fedora ''
               @ ''versions >= 21'')) c
      else if truthy (rpms_find r ''*.html'' pkg) then set_passed PASS None c
      else set_passed FAIL
             (Some (''No javadoc html files found in '' @ (case pkg of Some p \<Rightarrow> p | None \<Rightarrow> ''None''))) c)"

section \<open>CheckJavadocdirName\<close>

definition CheckJavadocdirName_run_on_applicable :: "spec_file \<Rightarrow> rpms \<Rightarrow> check \<Rightarrow> check" where
  "CheckJavadocdirName_run_on_applicable sp r c =
     (let pkg = get_javadoc_sub sp in
      if \<not> truthy pkg then set_passed FAIL (Some ''No javadoc subpackage present'') c
      else
        let name_ver_pattern = ''/usr/share/javadoc/'' @ name sp @ ''-'' @ version sp @ ''/*'' in
        if rpms_find_all r name_ver_pattern pkg \<noteq> [] then
          set_passed FAIL
            (Some (''Found deprecated versioned javadoc paths '' @ name_ver_pattern)) c
        else
          let name_pattern = ''/usr/share/javadoc/'' @ name sp @ ''/*'' in
          if rpms_find_all r name_pattern pkg = [] then
            set_passed FAIL (Some (''No /usr/share/javadoc/'' @ name sp @ '' found'')) c
          else set_passed PASS None c)"

section \<open>CheckJPackageRequires\<close>

definition JAVAPACKAGES_BR :: "string list" where
  "JAVAPACKAGES_BR = [''javapackages-tools'', ''jpackage-utils'',
                      ''javapackages-local'', ''gradle-local'']"

definition JAVAPACKAGES_R :: "string list" where
  "JAVAPACKAGES_R = [''javapackages-tools'', ''jpackage-utils'']"

definition br_found :: "spec_file \<Rightarrow> bool" where
  "br_found sp =
     list_ex (\<lambda>x. list_ex (\<lambda>br. contains x br) (build_requires sp)) JAVAPACKAGES_BR"

definition r_found :: "spec_file \<Rightarrow> bool" where
  "r_found sp =
     list_ex (\<lambda>x. list_ex (\<lambda>br. contains x br) (requires sp None)) JAVAPACKAGES_R"

definition CheckJPackageRequires_run_on_applicable :: "spec_file \<Rightarrow> check \<Rightarrow> check" where
  "CheckJPackageRequires_run_on_applicable sp c =
     (if is_maven_pkg sp \<or> truthy (is_xmvn_pkg sp) then
        let extra = ''Maven packages do not need to (Build)Require ''
                  @ ''jpackage-utils. It is pulled in by maven-local''
        in set_passed (of_flag (\<not> (br_found sp \<or> r_found sp))) (Some extra) c
      else set_passed (of_flag (br_found sp \<and> r_found sp)) None c)"

section \<open>CheckJavadocJPackageRequires\<close>

definition CheckJavadocJPackageRequires_run_on_applicable :: "spec_file \<Rightarrow> check \<Rightarrow> check" where
  "CheckJavadocJPackageRequires_run_on_applicable sp c =
     (let pkgs = filter (\<lambda>pkg. endswith pkg ''-javadoc'') (packages sp) in
      case pkgs of
        [] \<Rightarrow> set_passed NA None c
      | pkg0 # _ \<Rightarrow>
          if length pkgs > 1 then
            set_passed PENDING (Some ''More than one javadoc package'') c
          else
            let extra = ''javapackages-tools requires are automatically ''
                      @ ''generated by the buildsystem'';
                reqs = requires sp (Some pkg0);
                ok = (\<not> list_ex (\<lambda>x. x \<in> set reqs) JAVAPACKAGES_R)
            in set_passed (if ok then PASS else FAIL) (if \<not> ok then Some extra else None) c)"

section \<open>CheckAddMavenDepmap\<close>

text \<open>The pattern \<open>[^#]*%add_maven_depmap\<close>.\<close>

definition add_maven_depmap_regex :: regex where
  "add_maven_depmap_regex = Seq (Star (Except CHR ''#'')) (Lit ''%add_maven_depmap'')"

text \<open>A line break inside one of the triple-quoted messages: the newline and the 28 blanks
  that indent the next source line.\<close>

definition nl_indent :: string where
  "nl_indent = CHR 0x0A # replicate 28 CHR '' ''"

definition CheckAddMavenDepmap_run :: "spec_file \<Rightarrow> rpms \<Rightarrow> check \<Rightarrow> check" where
  "CheckAddMavenDepmap_run sp r c =
     (if \<not> truthy (rpms_find r ''*.pom'' None) then set_passed NA None c
      else if truthy (is_xmvn_pkg sp) then set_passed PASS None c
      else if \<not> truthy (find_re sp (Str add_maven_depmap_regex)) then
        set_passed FAIL
          (Some (''Old style Maven package found, no'' @ nl_indent
               @ ''add_maven_depmap calls found but POM files'' @ nl_indent
               @ ''present'')) c
      else
        set_passed PENDING
          (Some (''Some add_maven_depmap'' @ nl_indent
               @ ''calls found. Please check if they are correct or'' @ nl_indent
               @ ''update to latest guidelines'')) c)"

section \<open>CheckMvnRpmbuild\<close>

text \<open>The pattern \<open>[^#]*mvn-rpmbuild\<close>, compiled by the check itself.\<close>

definition mvn_rpmbuild :: regex where
  "mvn_rpmbuild = Seq (Star (Except CHR ''#'')) (Lit ''mvn-rpmbuild'')"

definition CheckMvnRpmbuild_run :: "spec_file \<Rightarrow> check \<Rightarrow> check" where
  "CheckMvnRpmbuild_run sp c =
     (if truthy (find_re sp (Compiled mvn_rpmbuild)) then
        set_passed FAIL
          (Some (''Convert the package to use %mvn_build ''
               @ ''instead of deprecated mvn-rpmbuild'')) c
      else set_passed NA None c)"

section \<open>CheckNoArch\<close>

text \<open>The \<open>for\<close> loop over the declared packages; its \<open>else\<close> branch runs when the loop ends
  without \<open>break\<close>.\<close>

fun noarch_loop :: "spec_file \<Rightarrow> string list \<Rightarrow> check \<Rightarrow> check" where
  "noarch_loop sp [] c = set_passed PASS None c"
| "noarch_loop sp (pkg # rest) c =
     (let arch = expand_arch sp pkg;
          arch = (if truthy arch then map_option lower arch else arch)
      in if arch \<noteq> Some ''noarch'' then
           set_passed PENDING
             (Some (pkg @ '' subpackage is not '' @ ''noarch. Please verify manually'')) c
         else noarch_loop sp rest c)"

definition CheckNoArch_run_on_applicable :: "spec_file \<Rightarrow> check \<Rightarrow> check" where
  "CheckNoArch_run_on_applicable sp c = noarch_loop sp (packages sp) c"

section \<open>Sample inputs\<close>

text \<open>A spec view, a built-package view and an unevaluated check with nothing in them; the
  closed examples below fill in the fields they need.\<close>

definition spec0 :: spec_file where
  "spec0 = \<lparr>name = ''foo'', version = ''1.0'', packages = [], build_requires = [],
            requires = (\<lambda>_. []), lines = [], expand_arch = (\<lambda>_. None),
            str_ignorecase = False\<rparr>"

definition rpms0 :: rpms where
  "rpms0 = \<lparr>containers = [], filelist = (\<lambda>_. [])\<rparr>"

definition check0 :: check where
  "check0 = \<lparr>result = None, output_extra = None\<rparr>"

section \<open>Properties\<close>

subsection \<open>Strings and patterns\<close>

lemma contains_iff_sublist: "contains x s \<longleftrightarrow> sublist x s"
  by (induction s) (auto simp: sublist_Cons_right)

lemma endswith_iff_suffix: "endswith s suf \<longleftrightarrow> suffix suf s"
  by (simp add: endswith_def suffix_to_prefix)

lemma is_maven_pkg_iff:
  "is_maven_pkg sp \<longleftrightarrow> (\<exists>br \<in> set (build_requires sp). sublist ''maven-local'' br)"
  by (simp add: is_maven_pkg_def list_ex_iff contains_iff_sublist)

lemma rmatch_Lit_fun: "rmatch ic (Lit l) k = lit_match ic l k"
  by (intro ext) simp

lemma rmatch_Eol_fun: "rmatch ic Eol k = (\<lambda>b s. (s = [] \<or> s = [CHR 0x0A]) \<and> k b s)"
  by (intro ext) simp

lemma lit_match_plain: "lit_match False l (\<lambda>_ _. True) b s \<longleftrightarrow> prefix l s"
proof (induction l arbitrary: b s)
  case Nil
  show ?case by simp
next
  case (Cons p ps)
  show ?case by (cases s) (simp_all add: chr_eq_def Cons.IH)
qed

lemma star_lit_contains:
  "star_match P (lit_match False l (\<lambda>_ _. True)) b s \<Longrightarrow> contains l s"
  by (induction s arbitrary: b) (auto simp: lit_match_plain)

lemma star_lit_prefix:
  "prefix l s \<Longrightarrow> star_match P (lit_match False l (\<lambda>_ _. True)) b s"
  by (cases s) (auto simp: lit_match_plain)

lemma search_star_lit:
  "search_from False (Seq (Star cs) (Lit l)) b s \<longleftrightarrow> contains l s"
  by (induction s arbitrary: b) (auto simp: rmatch_Lit_fun lit_match_plain dest: star_lit_contains intro: star_lit_prefix)

lemma re_search_mvn_rpmbuild: "re_search False mvn_rpmbuild s \<longleftrightarrow> sublist ''mvn-rpmbuild'' s"
  by (simp add: re_search_def mvn_rpmbuild_def search_star_lit contains_iff_sublist)

lemma is_space_newline: "is_space (CHR 0x0A)"
  by (simp add: is_space_def)

lemma star_space_eol:
  "star_match (in_cset Space) (\<lambda>b s. s = [] \<or> s = [CHR 0x0A]) b s \<longleftrightarrow> list_all is_space s"
  by (induction s arbitrary: b) (auto simp: is_space_newline)

lemma search_bol_False: "\<not> search_from ic (Seq Bol r) False s"
  by (induction s) auto

lemma empty_regex_iff: "re_search False empty_regex s \<longleftrightarrow> list_all is_space s"
  by (cases s) (auto simp: re_search_def empty_regex_def rmatch_Eol_fun star_space_eol search_bol_False is_space_newline)

lemma xmvn_nonempty: "re_search ic xmvn_regex s \<Longrightarrow> s \<noteq> []"
  by (auto simp: re_search_def xmvn_regex_def rmatch_Lit_fun)

lemma depmap_nonempty: "re_search ic add_maven_depmap_regex s \<Longrightarrow> s \<noteq> []"
  by (auto simp: re_search_def add_maven_depmap_regex_def rmatch_Lit_fun)

lemma truthy_find:
  assumes "\<And>x. P x \<Longrightarrow> x \<noteq> []"
  shows "truthy (find P xs) \<longleftrightarrow> (\<exists>x \<in> set xs. P x)"
  using assms by (induction xs) auto

lemma truthy_is_xmvn_pkg:
  "truthy (is_xmvn_pkg sp) \<longleftrightarrow> (\<exists>l \<in> set (lines sp). re_search (str_ignorecase sp) xmvn_regex l)"
  by (simp add: is_xmvn_pkg_def truthy_find xmvn_nonempty)

subsection \<open>CheckNewStyleMaven\<close>

text \<open>
  C3.  When some build-requirement holds the Maven marker \<open>maven-local\<close> and the XMvn macro
  pattern is found in the spec text, the verdict is PASS; when the marker is there and the
  pattern is not found, the verdict is FAIL; when no build-requirement holds the marker, the
  verdict is NOT-APPLICABLE, whether or not the pattern is found.
\<close>

theorem CheckNewStyleMaven_verdict:
  "((\<exists>br \<in> set (build_requires sp). sublist ''maven-local'' br) \<and>
    (\<exists>l \<in> set (lines sp). re_search (str_ignorecase sp) xmvn_regex l)
      \<longrightarrow> result (CheckNewStyleMaven_run sp c) = Some PASS) \<and>
   ((\<exists>br \<in> set (build_requires sp). sublist ''maven-local'' br) \<and>
    \<not> (\<exists>l \<in> set (lines sp). re_search (str_ignorecase sp) xmvn_regex l)
      \<longrightarrow> result (CheckNewStyleMaven_run sp c) = Some FAIL) \<and>
   (\<not> (\<exists>br \<in> set (build_requires sp). sublist ''maven-local'' br)
      \<longrightarrow> result (CheckNewStyleMaven_run sp c) = Some NA)"
  unfolding is_maven_pkg_iff [symmetric] truthy_is_xmvn_pkg [symmetric]
  by (simp add: CheckNewStyleMaven_run_def set_passed_def)

text \<open>One spec view for each of the three cases.\<close>

theorem CheckNewStyleMaven_verdict_witness:
  "result (CheckNewStyleMaven_run
     (spec0\<lparr>build_requires := [''maven-local''], lines := [''%mvn_build'']\<rparr>) check0) = Some PASS
   \<and> result (CheckNewStyleMaven_run
     (spec0\<lparr>build_requires := [''maven-local''], lines := [''ant'']\<rparr>) check0) = Some FAIL
   \<and> result (CheckNewStyleMaven_run
     (spec0\<lparr>build_requires := [''ant''], lines := [''%mvn_build'']\<rparr>) check0) = Some NA"
  using CheckNewStyleMaven_verdict
          [of "spec0\<lparr>build_requires := [''maven-local''], lines := [''%mvn_build'']\<rparr>" check0]
        CheckNewStyleMaven_verdict
          [of "spec0\<lparr>build_requires := [''maven-local''], lines := [''ant'']\<rparr>" check0]
        CheckNewStyleMaven_verdict
          [of "spec0\<lparr>build_requires := [''ant''], lines := [''%mvn_build'']\<rparr>" check0]
  by (simp add: spec0_def re_search_def xmvn_regex_def chr_eq_def contains_iff_sublist [symmetric])

subsection \<open>CheckMvnRpmbuild\<close>

text \<open>The search finds \<open>[^#]*mvn-rpmbuild\<close> wherever \<open>mvn-rpmbuild\<close> stands in the line,
  since \<open>[^#]*\<close> may match nothing: the verdict is FAIL as soon as one line holds the text,
  behind a \<open>#\<close> or not.\<close>

lemma mvn_rpmbuild_nonempty: "re_search False mvn_rpmbuild s \<Longrightarrow> s \<noteq> []"
  by (auto simp: re_search_mvn_rpmbuild)

lemma CheckMvnRpmbuild_verdict:
  "result (CheckMvnRpmbuild_run sp c) =
     Some (if \<exists>l \<in> set (lines sp). sublist ''mvn-rpmbuild'' l then FAIL else NA)"
proof -
  have "truthy (find_re sp (Compiled mvn_rpmbuild)) \<longleftrightarrow>
        (\<exists>l \<in> set (lines sp). sublist ''mvn-rpmbuild'' l)"
    by (simp add: truthy_find mvn_rpmbuild_nonempty) (simp add: re_search_mvn_rpmbuild)
  then show ?thesis
    by (simp add: CheckMvnRpmbuild_run_def set_passed_def)
qed

text \<open>
  C4.  The search for the deprecated build invocation is meant to leave comment lines out, so
  that a spec text with \<open>mvn-rpmbuild\<close> on comment lines only gets NOT-APPLICABLE.  On the
  spec text whose only line is the comment \<open># mvn-rpmbuild\<close> the check gives FAIL.
\<close>

theorem CheckMvnRpmbuild_comment_line:
  "result (CheckMvnRpmbuild_run (spec0\<lparr>lines := [''# mvn-rpmbuild'']\<rparr>) check0) = Some FAIL"
  by (simp add: CheckMvnRpmbuild_run_def set_passed_def spec0_def re_search_def
        mvn_rpmbuild_def chr_eq_def)

subsection \<open>File globs and the javadoc subpackage\<close>

lemma fnmatch_lit:
  "CHR ''*'' \<notin> set p \<Longrightarrow> CHR ''?'' \<notin> set p \<Longrightarrow> fnmatch n p \<longleftrightarrow> n = p"
  by (induction n p rule: fnmatch.induct) auto

lemma fnmatch_star_lit:
  "CHR ''*'' \<notin> set p \<Longrightarrow> CHR ''?'' \<notin> set p \<Longrightarrow> fnmatch n (CHR ''*'' # p) \<longleftrightarrow> suffix p n"
  by (induction n) (auto simp: fnmatch_lit suffix_Cons)

lemma fnmatch_html: "fnmatch f ''*.html'' \<longleftrightarrow> suffix ''.html'' f"
  by (rule fnmatch_star_lit) simp_all

lemma fnmatch_pom: "fnmatch f ''*.pom'' \<longleftrightarrow> suffix ''.pom'' f"
  by (rule fnmatch_star_lit) simp_all

lemma truthy_rpms_find:
  assumes "\<not> fnmatch [] pat"
  shows "truthy (rpms_find r pat cont) \<longleftrightarrow> rpms_find_all r pat cont \<noteq> []"
proof (cases "rpms_find_all r pat cont")
  case Nil
  then show ?thesis by (simp add: rpms_find_def)
next
  case (Cons f fs)
  then have "f \<in> set (rpms_find_all r pat cont)" by simp
  then have "fnmatch f pat" by (auto simp: rpms_find_all_def)
  with assms have "f \<noteq> []" by auto
  with Cons show ?thesis by (simp add: rpms_find_def)
qed

lemma get_javadoc_sub_None:
  "get_javadoc_sub sp = None \<longleftrightarrow> \<not> (\<exists>p \<in> set (packages sp). suffix ''-javadoc'' p)"
  by (auto simp: get_javadoc_sub_def find_None_iff endswith_iff_suffix)

lemma find_SomeD: "find P xs = Some x \<Longrightarrow> P x \<and> x \<in> set xs"
  by (induction xs) (auto split: if_splits)

lemma get_javadoc_sub_Some:
  "get_javadoc_sub sp = Some pkg \<Longrightarrow> pkg \<in> set (packages sp) \<and> suffix ''-javadoc'' pkg \<and> pkg \<noteq> []"
  unfolding get_javadoc_sub_def
  by (drule find_SomeD) (auto simp: endswith_iff_suffix suffix_def)

lemma get_javadoc_sub_exists:
  "\<exists>p \<in> set (packages sp). suffix ''-javadoc'' p \<Longrightarrow> \<exists>pkg. get_javadoc_sub sp = Some pkg"
  using get_javadoc_sub_None [of sp] by (cases "get_javadoc_sub sp") auto

subsection \<open>CheckJavadoc\<close>

text \<open>
  C7.  When no declared subpackage has a name ending in \<open>-javadoc\<close>, the verdict is FAIL and
  the message says that javadocs are optional for Fedora versions from 21 on.  When there is
  such a subpackage, the check takes the first one, and the verdict is PASS if the file list
  of that subpackage holds a file whose name ends in \<open>.html\<close>, and FAIL otherwise.
\<close>

theorem CheckJavadoc_verdict:
  "(\<not> (\<exists>p \<in> set (packages sp). suffix ''-javadoc'' p) \<longrightarrow>
      result (CheckJavadoc_run_on_applicable sp r c) = Some FAIL \<and>
      output_extra (CheckJavadoc_run_on_applicable sp r c) =
        Some ''No javadoc subpackage present. Note: Javadocs are optional for Fedora versions >= 21'') \<and>
   ((\<exists>p \<in> set (packages sp). suffix ''-javadoc'' p) \<longrightarrow>
      (\<exists>pkg \<in> set (packages sp). get_javadoc_sub sp = Some pkg \<and> suffix ''-javadoc'' pkg \<and>
         result (CheckJavadoc_run_on_applicable sp r c) =
           Some (if \<exists>f \<in> set (filelist r pkg). suffix ''.html'' f then PASS else FAIL)))"
proof (intro conjI impI)
  assume no: "\<not> (\<exists>p \<in> set (packages sp). suffix ''-javadoc'' p)"
  then have "get_javadoc_sub sp = None" by (simp add: get_javadoc_sub_None)
  then show "result (CheckJavadoc_run_on_applicable sp r c) = Some FAIL"
    and "output_extra (CheckJavadoc_run_on_applicable sp r c) =
        Some ''No javadoc subpackage present. Note: Javadocs are optional for Fedora versions >= 21''"
    by (simp_all add: CheckJavadoc_run_on_applicable_def set_passed_def)
next
  assume "\<exists>p \<in> set (packages sp). suffix ''-javadoc'' p"
  then obtain pkg where pkg: "get_javadoc_sub sp = Some pkg"
    using get_javadoc_sub_exists by blast
  note props = get_javadoc_sub_Some [OF pkg]
  have "truthy (rpms_find r ''*.html'' (Some pkg)) \<longleftrightarrow>
        (\<exists>f \<in> set (filelist r pkg). suffix ''.html'' f)"
    by (subst truthy_rpms_find) (auto simp: rpms_find_all_def filter_empty_conv fnmatch_html)
  with pkg props have "result (CheckJavadoc_run_on_applicable sp r c) =
           Some (if \<exists>f \<in> set (filelist r pkg). suffix ''.html'' f then PASS else FAIL)"
    by (simp add: CheckJavadoc_run_on_applicable_def set_passed_def)
  with pkg props show "\<exists>pkg \<in> set (packages sp). get_javadoc_sub sp = Some pkg \<and> suffix ''-javadoc'' pkg \<and>
         result (CheckJavadoc_run_on_applicable sp r c) =
           Some (if \<exists>f \<in> set (filelist r pkg). suffix ''.html'' f then PASS else FAIL)"
    by blast
qed

theorem CheckJavadoc_verdict_witness:
  "result (CheckJavadoc_run_on_applicable (spec0\<lparr>packages := [''foo'']\<rparr>) rpms0 check0) = Some FAIL
   \<and> output_extra (CheckJavadoc_run_on_applicable (spec0\<lparr>packages := [''foo'']\<rparr>) rpms0 check0) =
        Some ''No javadoc subpackage present. Note: Javadocs are optional for Fedora versions >= 21''
   \<and> result (CheckJavadoc_run_on_applicable (spec0\<lparr>packages := [''foo'', ''foo-javadoc'']\<rparr>)
        (rpms0\<lparr>filelist := (\<lambda>_. [''a.html''])\<rparr>) check0) = Some PASS
   \<and> result (CheckJavadoc_run_on_applicable (spec0\<lparr>packages := [''foo'', ''foo-javadoc'']\<rparr>)
        (rpms0\<lparr>filelist := (\<lambda>_. [''a.txt''])\<rparr>) check0) = Some FAIL"
  using CheckJavadoc_verdict [of "spec0\<lparr>packages := [''foo'']\<rparr>" rpms0 check0]
        CheckJavadoc_verdict [of "spec0\<lparr>packages := [''foo'', ''foo-javadoc'']\<rparr>"
                                 "rpms0\<lparr>filelist := (\<lambda>_. [''a.html''])\<rparr>" check0]
        CheckJavadoc_verdict [of "spec0\<lparr>packages := [''foo'', ''foo-javadoc'']\<rparr>"
                                 "rpms0\<lparr>filelist := (\<lambda>_. [''a.txt''])\<rparr>" check0]
  by (simp add: spec0_def rpms0_def endswith_iff_suffix [symmetric] endswith_def)

subsection \<open>CheckJavadocdirName\<close>

text \<open>
  C8.  For a package with a javadoc subpackage, the verdict is PASS if and only if some file
  of that subpackage matches \<open>/usr/share/javadoc/<name>/*\<close> and none matches
  \<open>/usr/share/javadoc/<name>-<version>/*\<close>; any file at the versioned path makes the
  verdict FAIL.
\<close>

theorem CheckJavadocdirName_verdict:
  "(\<exists>p \<in> set (packages sp). suffix ''-javadoc'' p) \<longrightarrow>
     (\<exists>pkg \<in> set (packages sp). get_javadoc_sub sp = Some pkg \<and> suffix ''-javadoc'' pkg \<and>
        (result (CheckJavadocdirName_run_on_applicable sp r c) = Some PASS \<longleftrightarrow>
           (\<exists>f \<in> set (filelist r pkg). fnmatch f (''/usr/share/javadoc/'' @ name sp @ ''/*'')) \<and>
           \<not> (\<exists>f \<in> set (filelist r pkg).
                 fnmatch f (''/usr/share/javadoc/'' @ name sp @ ''-'' @ version sp @ ''/*''))) \<and>
        ((\<exists>f \<in> set (filelist r pkg).
            fnmatch f (''/usr/share/javadoc/'' @ name sp @ ''-'' @ version sp @ ''/*''))
           \<longrightarrow> result (CheckJavadocdirName_run_on_applicable sp r c) = Some FAIL))"
proof
  assume "\<exists>p \<in> set (packages sp). suffix ''-javadoc'' p"
  then obtain pkg where pkg: "get_javadoc_sub sp = Some pkg"
    using get_javadoc_sub_exists by blast
  note props = get_javadoc_sub_Some [OF pkg]
  have ne: "rpms_find_all r pat (Some pkg) \<noteq> [] \<longleftrightarrow> (\<exists>f \<in> set (filelist r pkg). fnmatch f pat)"
    for pat
    by (auto simp: rpms_find_all_def filter_empty_conv)
  have "(result (CheckJavadocdirName_run_on_applicable sp r c) = Some PASS \<longleftrightarrow>
           (\<exists>f \<in> set (filelist r pkg). fnmatch f (''/usr/share/javadoc/'' @ name sp @ ''/*'')) \<and>
           \<not> (\<exists>f \<in> set (filelist r pkg).
                 fnmatch f (''/usr/share/javadoc/'' @ name sp @ ''-'' @ version sp @ ''/*''))) \<and>
        ((\<exists>f \<in> set (filelist r pkg).
            fnmatch f (''/usr/share/javadoc/'' @ name sp @ ''-'' @ version sp @ ''/*''))
           \<longrightarrow> result (CheckJavadocdirName_run_on_applicable sp r c) = Some FAIL)"
    using pkg props
    unfolding ne [symmetric]
    by (simp add: CheckJavadocdirName_run_on_applicable_def set_passed_def Let_def)
  with pkg props show "\<exists>pkg \<in> set (packages sp). get_javadoc_sub sp = Some pkg \<and> suffix ''-javadoc'' pkg \<and>
        (result (CheckJavadocdirName_run_on_applicable sp r c) = Some PASS \<longleftrightarrow>
           (\<exists>f \<in> set (filelist r pkg). fnmatch f (''/usr/share/javadoc/'' @ name sp @ ''/*'')) \<and>
           \<not> (\<exists>f \<in> set (filelist r pkg).
                 fnmatch f (''/usr/share/javadoc/'' @ name sp @ ''-'' @ version sp @ ''/*''))) \<and>
        ((\<exists>f \<in> set (filelist r pkg).
            fnmatch f (''/usr/share/javadoc/'' @ name sp @ ''-'' @ version sp @ ''/*''))
           \<longrightarrow> result (CheckJavadocdirName_run_on_applicable sp r c) = Some FAIL)"
    by blast
qed

theorem CheckJavadocdirName_verdict_witness:
  "result (CheckJavadocdirName_run_on_applicable (spec0\<lparr>packages := [''foo-javadoc'']\<rparr>)
      (rpms0\<lparr>filelist := (\<lambda>_. [''/usr/share/javadoc/foo/a''])\<rparr>) check0) = Some PASS
   \<and> result (CheckJavadocdirName_run_on_applicable (spec0\<lparr>packages := [''foo-javadoc'']\<rparr>)
      (rpms0\<lparr>filelist := (\<lambda>_. [''/usr/share/javadoc/foo/a'', ''/usr/share/javadoc/foo-1.0/a''])\<rparr>)
      check0) = Some FAIL"
  using CheckJavadocdirName_verdict [of "spec0\<lparr>packages := [''foo-javadoc'']\<rparr>"
          "rpms0\<lparr>filelist := (\<lambda>_. [''/usr/share/javadoc/foo/a''])\<rparr>" check0]
        CheckJavadocdirName_verdict [of "spec0\<lparr>packages := [''foo-javadoc'']\<rparr>"
          "rpms0\<lparr>filelist := (\<lambda>_. [''/usr/share/javadoc/foo/a'', ''/usr/share/javadoc/foo-1.0/a''])\<rparr>" check0]
  by (simp add: spec0_def rpms0_def endswith_iff_suffix [symmetric] endswith_def)

subsection \<open>CheckJPackageRequires\<close>

lemma br_found_iff:
  "br_found sp \<longleftrightarrow>
     (\<exists>br \<in> set (build_requires sp). \<exists>x \<in> set JAVAPACKAGES_BR. sublist x br)"
  by (auto simp: br_found_def list_ex_iff contains_iff_sublist)

lemma r_found_iff:
  "r_found sp \<longleftrightarrow>
     (\<exists>rq \<in> set (requires sp None). \<exists>x \<in> set JAVAPACKAGES_R. sublist x rq)"
  by (auto simp: r_found_def list_ex_iff contains_iff_sublist)

text \<open>
  C2.  For a Maven or XMvn package the check FAILs when some build-requirement holds one of
  the tokens of \<open>JAVAPACKAGES_BR\<close> or some requirement holds one of the tokens of
  \<open>JAVAPACKAGES_R\<close>, and PASSes when none does.  For every other package it PASSes only when
  a token is found among the build-requires and among the requires, and FAILs when it is
  missing from either.
\<close>

theorem CheckJPackageRequires_verdict:
  "((\<exists>br \<in> set (build_requires sp). sublist ''maven-local'' br) \<or>
    (\<exists>l \<in> set (lines sp). re_search (str_ignorecase sp) xmvn_regex l)
     \<longrightarrow> result (CheckJPackageRequires_run_on_applicable sp c) =
           Some (if (\<exists>br \<in> set (build_requires sp). \<exists>x \<in> set JAVAPACKAGES_BR. sublist x br) \<or>
                    (\<exists>rq \<in> set (requires sp None). \<exists>x \<in> set JAVAPACKAGES_R. sublist x rq)
                 then FAIL else PASS)) \<and>
   (\<not> ((\<exists>br \<in> set (build_requires sp). sublist ''maven-local'' br) \<or>
       (\<exists>l \<in> set (lines sp). re_search (str_ignorecase sp) xmvn_regex l))
     \<longrightarrow> result (CheckJPackageRequires_run_on_applicable sp c) =
           Some (if (\<exists>br \<in> set (build_requires sp). \<exists>x \<in> set JAVAPACKAGES_BR. sublist x br) \<and>
                    (\<exists>rq \<in> set (requires sp None). \<exists>x \<in> set JAVAPACKAGES_R. sublist x rq)
                 then PASS else FAIL))"
  unfolding is_maven_pkg_iff [symmetric] truthy_is_xmvn_pkg [symmetric]
    br_found_iff [symmetric] r_found_iff [symmetric]
  by (simp add: CheckJPackageRequires_run_on_applicable_def set_passed_def of_flag_def)

theorem CheckJPackageRequires_verdict_witness:
  "result (CheckJPackageRequires_run_on_applicable
      (spec0\<lparr>build_requires := [''maven-local'', ''jpackage-utils'']\<rparr>) check0) = Some FAIL
   \<and> result (CheckJPackageRequires_run_on_applicable
      (spec0\<lparr>build_requires := [''maven-local'']\<rparr>) check0) = Some PASS
   \<and> result (CheckJPackageRequires_run_on_applicable
      (spec0\<lparr>build_requires := [''ant'']\<rparr>) check0) = Some FAIL
   \<and> result (CheckJPackageRequires_run_on_applicable
      (spec0\<lparr>build_requires := [''ant'', ''jpackage-utils''],
             requires := (\<lambda>_. [''jpackage-utils''])\<rparr>) check0) = Some PASS"
  using CheckJPackageRequires_verdict
          [of "spec0\<lparr>build_requires := [''maven-local'', ''jpackage-utils'']\<rparr>" check0]
        CheckJPackageRequires_verdict
          [of "spec0\<lparr>build_requires := [''maven-local'']\<rparr>" check0]
        CheckJPackageRequires_verdict
          [of "spec0\<lparr>build_requires := [''ant'']\<rparr>" check0]
        CheckJPackageRequires_verdict
          [of "spec0\<lparr>build_requires := [''ant'', ''jpackage-utils''],
                    requires := (\<lambda>_. [''jpackage-utils''])\<rparr>" check0]
  by (simp add: spec0_def JAVAPACKAGES_BR_def JAVAPACKAGES_R_def
        contains_iff_sublist [symmetric])

subsection \<open>CheckJavadocJPackageRequires\<close>

text \<open>
  C5.  With no declared subpackage whose name ends in \<open>-javadoc\<close> the verdict is
  NOT-APPLICABLE; with more than one it is PENDING, with the text "More than one javadoc
  package"; with exactly one it is FAIL when a token of \<open>JAVAPACKAGES_R\<close> is an entry of
  that subpackage's requires, and PASS otherwise.
\<close>

theorem CheckJavadocJPackageRequires_verdict:
  "(filter (\<lambda>p. suffix ''-javadoc'' p) (packages sp) = [] \<longrightarrow>
      result (CheckJavadocJPackageRequires_run_on_applicable sp c) = Some NA) \<and>
   (length (filter (\<lambda>p. suffix ''-javadoc'' p) (packages sp)) > 1 \<longrightarrow>
      result (CheckJavadocJPackageRequires_run_on_applicable sp c) = Some PENDING \<and>
      output_extra (CheckJavadocJPackageRequires_run_on_applicable sp c) =
        Some ''More than one javadoc package'') \<and>
   (filter (\<lambda>p. suffix ''-javadoc'' p) (packages sp) = [pkg] \<longrightarrow>
      result (CheckJavadocJPackageRequires_run_on_applicable sp c) =
        Some (if \<exists>x \<in> set JAVAPACKAGES_R. x \<in> set (requires sp (Some pkg)) then FAIL else PASS))"
  unfolding endswith_iff_suffix [symmetric]
  by (auto simp: CheckJavadocJPackageRequires_run_on_applicable_def set_passed_def Let_def
        list_ex_iff split: list.splits)

theorem CheckJavadocJPackageRequires_verdict_witness:
  "result (CheckJavadocJPackageRequires_run_on_applicable
      (spec0\<lparr>packages := [''foo'']\<rparr>) check0) = Some NA
   \<and> result (CheckJavadocJPackageRequires_run_on_applicable
      (spec0\<lparr>packages := [''a-javadoc'', ''b-javadoc'']\<rparr>) check0) = Some PENDING
   \<and> output_extra (CheckJavadocJPackageRequires_run_on_applicable
      (spec0\<lparr>packages := [''a-javadoc'', ''b-javadoc'']\<rparr>) check0) =
        Some ''More than one javadoc package''
   \<and> result (CheckJavadocJPackageRequires_run_on_applicable
      (spec0\<lparr>packages := [''a'', ''a-javadoc''], requires := (\<lambda>_. [''jpackage-utils''])\<rparr>)
      check0) = Some FAIL
   \<and> result (CheckJavadocJPackageRequires_run_on_applicable
      (spec0\<lparr>packages := [''a'', ''a-javadoc'']\<rparr>) check0) = Some PASS"
  using CheckJavadocJPackageRequires_verdict [of "spec0\<lparr>packages := [''foo'']\<rparr>" check0]
        CheckJavadocJPackageRequires_verdict
          [of "spec0\<lparr>packages := [''a-javadoc'', ''b-javadoc'']\<rparr>" check0]
        CheckJavadocJPackageRequires_verdict
          [of "spec0\<lparr>packages := [''a'', ''a-javadoc''], requires := (\<lambda>_. [''jpackage-utils''])\<rparr>"
              check0 "''a-javadoc''"]
        CheckJavadocJPackageRequires_verdict
          [of "spec0\<lparr>packages := [''a'', ''a-javadoc'']\<rparr>" check0 "''a-javadoc''"]
  by (simp add: spec0_def JAVAPACKAGES_R_def endswith_iff_suffix [symmetric] endswith_def)

lemma r_found_tokens:
  "r_found sp \<longleftrightarrow>
     (\<exists>rq \<in> set (requires sp None).
        sublist ''javapackages-tools'' rq \<or> sublist ''jpackage-utils'' rq)"
  by (auto simp: r_found_iff JAVAPACKAGES_R_def)

lemma br_found_tokens:
  "br_found sp \<longleftrightarrow>
     (\<exists>br \<in> set (build_requires sp).
        sublist ''javapackages-tools'' br \<or> sublist ''jpackage-utils'' br \<or>
        sublist ''javapackages-local'' br \<or> sublist ''gradle-local'' br)"
  by (auto simp: br_found_iff JAVAPACKAGES_BR_def)

text \<open>
  C10.  The javadoc-subpackage check FAILs exactly when an entry of the requires list is equal
  to one of the two tokens; an entry that only contains a token does not count.  The
  build/runtime requires check decides by substring: for a Maven or XMvn package its verdict
  is FAIL exactly when a token occurs inside some build-requirement or some requirement, and
  for any other package its verdict is PASS exactly when a token occurs inside some
  build-requirement and inside some requirement.
\<close>

theorem javadoc_requires_exact_match:
  "(filter (\<lambda>p. suffix ''-javadoc'' p) (packages sp) = [pkg] \<longrightarrow>
      (result (CheckJavadocJPackageRequires_run_on_applicable sp c) = Some FAIL \<longleftrightarrow>
         (\<exists>rq \<in> set (requires sp (Some pkg)).
            rq = ''javapackages-tools'' \<or> rq = ''jpackage-utils''))) \<and>
   ((\<exists>br \<in> set (build_requires sp). sublist ''maven-local'' br) \<or>
    (\<exists>l \<in> set (lines sp). re_search (str_ignorecase sp) xmvn_regex l) \<longrightarrow>
      (result (CheckJPackageRequires_run_on_applicable sp c) = Some FAIL \<longleftrightarrow>
         (\<exists>br \<in> set (build_requires sp).
            sublist ''javapackages-tools'' br \<or> sublist ''jpackage-utils'' br \<or>
            sublist ''javapackages-local'' br \<or> sublist ''gradle-local'' br) \<or>
         (\<exists>rq \<in> set (requires sp None).
            sublist ''javapackages-tools'' rq \<or> sublist ''jpackage-utils'' rq))) \<and>
   (\<not> ((\<exists>br \<in> set (build_requires sp). sublist ''maven-local'' br) \<or>
       (\<exists>l \<in> set (lines sp). re_search (str_ignorecase sp) xmvn_regex l)) \<longrightarrow>
      (result (CheckJPackageRequires_run_on_applicable sp c) = Some PASS \<longleftrightarrow>
         (\<exists>br \<in> set (build_requires sp).
            sublist ''javapackages-tools'' br \<or> sublist ''jpackage-utils'' br \<or>
            sublist ''javapackages-local'' br \<or> sublist ''gradle-local'' br) \<and>
         (\<exists>rq \<in> set (requires sp None).
            sublist ''javapackages-tools'' rq \<or> sublist ''jpackage-utils'' rq)))"
proof (intro conjI impI)
  assume one: "filter (\<lambda>p. suffix ''-javadoc'' p) (packages sp) = [pkg]"
  then show "result (CheckJavadocJPackageRequires_run_on_applicable sp c) = Some FAIL \<longleftrightarrow>
         (\<exists>rq \<in> set (requires sp (Some pkg)).
            rq = ''javapackages-tools'' \<or> rq = ''jpackage-utils'')"
    unfolding endswith_iff_suffix [symmetric]
    by (auto simp: CheckJavadocJPackageRequires_run_on_applicable_def set_passed_def Let_def
          JAVAPACKAGES_R_def)
next
  assume "(\<exists>br \<in> set (build_requires sp). sublist ''maven-local'' br) \<or>
          (\<exists>l \<in> set (lines sp). re_search (str_ignorecase sp) xmvn_regex l)"
  then have maven: "is_maven_pkg sp \<or> truthy (is_xmvn_pkg sp)"
    by (simp add: is_maven_pkg_iff truthy_is_xmvn_pkg)
  then have "result (CheckJPackageRequires_run_on_applicable sp c) = Some FAIL \<longleftrightarrow>
             br_found sp \<or> r_found sp"
    by (simp add: CheckJPackageRequires_run_on_applicable_def set_passed_def of_flag_def)
  then show "result (CheckJPackageRequires_run_on_applicable sp c) = Some FAIL \<longleftrightarrow>
         (\<exists>br \<in> set (build_requires sp).
            sublist ''javapackages-tools'' br \<or> sublist ''jpackage-utils'' br \<or>
            sublist ''javapackages-local'' br \<or> sublist ''gradle-local'' br) \<or>
         (\<exists>rq \<in> set (requires sp None).
            sublist ''javapackages-tools'' rq \<or> sublist ''jpackage-utils'' rq)"
    by (simp only: br_found_tokens r_found_tokens)
next
  assume "\<not> ((\<exists>br \<in> set (build_requires sp). sublist ''maven-local'' br) \<or>
             (\<exists>l \<in> set (lines sp). re_search (str_ignorecase sp) xmvn_regex l))"
  then have other: "\<not> (is_maven_pkg sp \<or> truthy (is_xmvn_pkg sp))"
    by (simp add: is_maven_pkg_iff truthy_is_xmvn_pkg)
  then have "result (CheckJPackageRequires_run_on_applicable sp c) = Some PASS \<longleftrightarrow>
             br_found sp \<and> r_found sp"
    by (simp add: CheckJPackageRequires_run_on_applicable_def set_passed_def of_flag_def)
  then show "result (CheckJPackageRequires_run_on_applicable sp c) = Some PASS \<longleftrightarrow>
         (\<exists>br \<in> set (build_requires sp).
            sublist ''javapackages-tools'' br \<or> sublist ''jpackage-utils'' br \<or>
            sublist ''javapackages-local'' br \<or> sublist ''gradle-local'' br) \<and>
         (\<exists>rq \<in> set (requires sp None).
            sublist ''javapackages-tools'' rq \<or> sublist ''jpackage-utils'' rq)"
    by (simp only: br_found_tokens r_found_tokens)
qed

text \<open>The entry \<open>jpackage-utils >= 1.7\<close> contains a token and is not equal to one.  As the
  only requirement of the javadoc subpackage it does not make the javadoc check fail.  As
  the only requirement of a Maven package it makes the requires check fail, and as build-
  and runtime requirement of a package that is not Maven it makes the requires check pass.\<close>

theorem javadoc_requires_exact_match_witness:
  "result (CheckJavadocJPackageRequires_run_on_applicable
      (spec0\<lparr>packages := [''a'', ''a-javadoc''],
             requires := (\<lambda>_. [''jpackage-utils >= 1.7''])\<rparr>) check0) \<noteq> Some FAIL
   \<and> result (CheckJPackageRequires_run_on_applicable
      (spec0\<lparr>build_requires := [''maven-local''],
             requires := (\<lambda>_. [''jpackage-utils >= 1.7''])\<rparr>) check0) = Some FAIL
   \<and> result (CheckJPackageRequires_run_on_applicable
      (spec0\<lparr>build_requires := [''jpackage-utils >= 1.7''],
             requires := (\<lambda>_. [''jpackage-utils >= 1.7''])\<rparr>) check0) = Some PASS"
  using javadoc_requires_exact_match
          [of "spec0\<lparr>packages := [''a'', ''a-javadoc''],
                    requires := (\<lambda>_. [''jpackage-utils >= 1.7''])\<rparr>" "''a-javadoc''" check0]
        javadoc_requires_exact_match
          [of "spec0\<lparr>build_requires := [''maven-local''],
                    requires := (\<lambda>_. [''jpackage-utils >= 1.7''])\<rparr>" "''x''" check0]
        javadoc_requires_exact_match
          [of "spec0\<lparr>build_requires := [''jpackage-utils >= 1.7''],
                    requires := (\<lambda>_. [''jpackage-utils >= 1.7''])\<rparr>" "''x''" check0]
  by (simp add: spec0_def endswith_iff_suffix [symmetric] endswith_def
        contains_iff_sublist [symmetric])

subsection \<open>CheckAddMavenDepmap\<close>

lemma truthy_find_pom:
  "truthy (rpms_find r ''*.pom'' None) \<longleftrightarrow>
     (\<exists>ct \<in> set (containers r). \<exists>f \<in> set (filelist r ct). fnmatch f ''*.pom'')"
  by (subst truthy_rpms_find) (auto simp: rpms_find_all_def filter_empty_conv)

lemma truthy_find_depmap:
  "truthy (find_re sp (Str add_maven_depmap_regex)) \<longleftrightarrow>
     (\<exists>l \<in> set (lines sp). re_search (str_ignorecase sp) add_maven_depmap_regex l)"
  by (simp add: truthy_find depmap_nonempty)

text \<open>
  C6.  When no file of the build output matches \<open>*.pom\<close> the verdict is NOT-APPLICABLE.
  Otherwise it is PASS for an XMvn build; if not, FAIL when the \<open>%add_maven_depmap\<close>
  pattern is not found in the spec text, and PENDING when it is found.
\<close>

theorem CheckAddMavenDepmap_verdict:
  "(\<not> (\<exists>ct \<in> set (containers r). \<exists>f \<in> set (filelist r ct). fnmatch f ''*.pom'') \<longrightarrow>
      result (CheckAddMavenDepmap_run sp r c) = Some NA) \<and>
   ((\<exists>ct \<in> set (containers r). \<exists>f \<in> set (filelist r ct). fnmatch f ''*.pom'') \<longrightarrow>
      result (CheckAddMavenDepmap_run sp r c) =
        Some (if \<exists>l \<in> set (lines sp). re_search (str_ignorecase sp) xmvn_regex l then PASS
              else if \<not> (\<exists>l \<in> set (lines sp).
                            re_search (str_ignorecase sp) add_maven_depmap_regex l) then FAIL
              else PENDING))"
  unfolding truthy_find_pom [symmetric] truthy_is_xmvn_pkg [symmetric]
    truthy_find_depmap [symmetric]
  by (simp add: CheckAddMavenDepmap_run_def set_passed_def)

theorem CheckAddMavenDepmap_verdict_witness:
  "result (CheckAddMavenDepmap_run spec0 rpms0 check0) = Some NA
   \<and> result (CheckAddMavenDepmap_run (spec0\<lparr>lines := [''%mvn_build'']\<rparr>)
        (rpms0\<lparr>containers := [''a''], filelist := (\<lambda>_. [''a.pom''])\<rparr>) check0) = Some PASS
   \<and> result (CheckAddMavenDepmap_run (spec0\<lparr>lines := [''ant'']\<rparr>)
        (rpms0\<lparr>containers := [''a''], filelist := (\<lambda>_. [''a.pom''])\<rparr>) check0) = Some FAIL
   \<and> result (CheckAddMavenDepmap_run (spec0\<lparr>lines := [''%add_maven_depmap'']\<rparr>)
        (rpms0\<lparr>containers := [''a''], filelist := (\<lambda>_. [''a.pom''])\<rparr>) check0) = Some PENDING"
  using CheckAddMavenDepmap_verdict [of rpms0 spec0 check0]
        CheckAddMavenDepmap_verdict
          [of "rpms0\<lparr>containers := [''a''], filelist := (\<lambda>_. [''a.pom''])\<rparr>"
              "spec0\<lparr>lines := [''%mvn_build'']\<rparr>" check0]
        CheckAddMavenDepmap_verdict
          [of "rpms0\<lparr>containers := [''a''], filelist := (\<lambda>_. [''a.pom''])\<rparr>"
              "spec0\<lparr>lines := [''ant'']\<rparr>" check0]
        CheckAddMavenDepmap_verdict
          [of "rpms0\<lparr>containers := [''a''], filelist := (\<lambda>_. [''a.pom''])\<rparr>"
              "spec0\<lparr>lines := [''%add_maven_depmap'']\<rparr>" check0]
  by (simp add: spec0_def rpms0_def re_search_def xmvn_regex_def add_maven_depmap_regex_def
        chr_eq_def)

subsection \<open>CheckNoArch\<close>

lemma noarch_test:
  "((if truthy (expand_arch sp pkg) then map_option lower (expand_arch sp pkg)
     else expand_arch sp pkg) \<noteq> Some ''noarch'') \<longleftrightarrow>
   \<not> (\<exists>a. expand_arch sp pkg = Some a \<and> lower a = ''noarch'')"
  by (cases "expand_arch sp pkg") (auto simp: lower_def)

lemma noarch_loop_Cons:
  "noarch_loop sp (pkg # rest) c =
     (if \<exists>a. expand_arch sp pkg = Some a \<and> lower a = ''noarch'' then noarch_loop sp rest c
      else set_passed PENDING
             (Some (pkg @ '' subpackage is not noarch. Please verify manually'')) c)"
proof (cases "\<exists>a. expand_arch sp pkg = Some a \<and> lower a = ''noarch''")
  case True
  with noarch_test [of sp pkg] show ?thesis
    by (simp only: noarch_loop.simps Let_def) simp
next
  case False
  with noarch_test [of sp pkg] show ?thesis
    by (simp only: noarch_loop.simps Let_def) simp
qed

lemma noarch_loop_all:
  "\<forall>p \<in> set ps. \<exists>a. expand_arch sp p = Some a \<and> lower a = ''noarch'' \<Longrightarrow>
   noarch_loop sp ps c = set_passed PASS None c"
  by (induction ps) (simp_all add: noarch_loop_Cons del: noarch_loop.simps(2))

lemma noarch_loop_first:
  assumes good: "\<forall>p \<in> set pre. \<exists>a. expand_arch sp p = Some a \<and> lower a = ''noarch''"
    and bad: "\<not> (\<exists>a. expand_arch sp pkg = Some a \<and> lower a = ''noarch'')"
  shows "noarch_loop sp (pre @ pkg # rest) c =
     set_passed PENDING (Some (pkg @ '' subpackage is not noarch. Please verify manually'')) c"
  using good
proof (induction pre)
  case Nil
  show ?case by (simp only: append_Nil noarch_loop_Cons bad if_False)
next
  case (Cons p pre)
  then have ok: "\<exists>a. expand_arch sp p = Some a \<and> lower a = ''noarch''"
    and others: "\<forall>p \<in> set pre. \<exists>a. expand_arch sp p = Some a \<and> lower a = ''noarch''"
    by simp_all
  show ?case by (simp only: append_Cons noarch_loop_Cons ok if_True Cons.IH [OF others])
qed

text \<open>
  C9.  The verdict is PASS exactly when the architecture tag of every declared subpackage
  expands and lowercases to \<open>noarch\<close>.  The first subpackage whose tag does not expand, or
  expands to something else, makes the verdict PENDING, with the message that names this
  subpackage and asks for a manual check.
\<close>

theorem CheckNoArch_verdict:
  "(result (CheckNoArch_run_on_applicable sp c) = Some PASS \<longleftrightarrow>
      (\<forall>p \<in> set (packages sp). \<exists>a. expand_arch sp p = Some a \<and> lower a = ''noarch'')) \<and>
   (packages sp = pre @ pkg # rest \<and>
    (\<forall>p \<in> set pre. \<exists>a. expand_arch sp p = Some a \<and> lower a = ''noarch'') \<and>
    (expand_arch sp pkg = None \<or> (\<exists>a. expand_arch sp pkg = Some a \<and> lower a \<noteq> ''noarch''))
     \<longrightarrow> result (CheckNoArch_run_on_applicable sp c) = Some PENDING \<and>
         output_extra (CheckNoArch_run_on_applicable sp c) =
           Some (pkg @ '' subpackage is not noarch. Please verify manually''))"
proof (intro conjI impI)
  let ?ok = "\<lambda>p. \<exists>a. expand_arch sp p = Some a \<and> lower a = ''noarch''"
  show "result (CheckNoArch_run_on_applicable sp c) = Some PASS \<longleftrightarrow>
        (\<forall>p \<in> set (packages sp). ?ok p)"
  proof
    assume pass: "result (CheckNoArch_run_on_applicable sp c) = Some PASS"
    show "\<forall>p \<in> set (packages sp). ?ok p"
    proof (rule ccontr)
      assume "\<not> (\<forall>p \<in> set (packages sp). ?ok p)"
      then have "\<exists>x \<in> set (packages sp). \<not> ?ok x" by blast
      then obtain pre x rest where
        split: "packages sp = pre @ x # rest" and bad: "\<not> ?ok x" and
        good: "\<forall>y \<in> set pre. \<not> \<not> ?ok y"
        using split_list_first_prop [of "packages sp" "\<lambda>p. \<not> ?ok p"] by blast
      from good have "\<forall>y \<in> set pre. ?ok y" by blast
      from noarch_loop_first [OF this bad, of rest c] split
      have "result (CheckNoArch_run_on_applicable sp c) = Some PENDING"
        by (simp add: CheckNoArch_run_on_applicable_def set_passed_def)
      with pass show False by simp
    qed
  next
    assume "\<forall>p \<in> set (packages sp). ?ok p"
    from noarch_loop_all [OF this, of c]
    show "result (CheckNoArch_run_on_applicable sp c) = Some PASS"
      by (simp add: CheckNoArch_run_on_applicable_def set_passed_def)
  qed
next
  assume h: "packages sp = pre @ pkg # rest \<and>
    (\<forall>p \<in> set pre. \<exists>a. expand_arch sp p = Some a \<and> lower a = ''noarch'') \<and>
    (expand_arch sp pkg = None \<or> (\<exists>a. expand_arch sp pkg = Some a \<and> lower a \<noteq> ''noarch''))"
  then have bad: "\<not> (\<exists>a. expand_arch sp pkg = Some a \<and> lower a = ''noarch'')" by auto
  from h have good: "\<forall>p \<in> set pre. \<exists>a. expand_arch sp p = Some a \<and> lower a = ''noarch''"
    by blast
  from noarch_loop_first [OF good bad, of rest c] h
  show "result (CheckNoArch_run_on_applicable sp c) = Some PENDING"
    and "output_extra (CheckNoArch_run_on_applicable sp c) =
           Some (pkg @ '' subpackage is not noarch. Please verify manually'')"
    by (simp_all add: CheckNoArch_run_on_applicable_def set_passed_def)
qed

lemma lower_NoArch: "lower ''NoArch'' = ''noarch''"
  by (simp add: lower_def lower_char_def char_of_eq_iff)

theorem CheckNoArch_verdict_witness:
  "result (CheckNoArch_run_on_applicable
      (spec0\<lparr>packages := [''a'', ''b''], expand_arch := (\<lambda>_. Some ''NoArch'')\<rparr>) check0) = Some PASS
   \<and> result (CheckNoArch_run_on_applicable
      (spec0\<lparr>packages := [''a'', ''b''],
             expand_arch := (\<lambda>p. if p = ''a'' then Some ''NoArch'' else None)\<rparr>) check0) = Some PENDING
   \<and> output_extra (CheckNoArch_run_on_applicable
      (spec0\<lparr>packages := [''a'', ''b''],
             expand_arch := (\<lambda>p. if p = ''a'' then Some ''NoArch'' else None)\<rparr>) check0) =
       Some ''b subpackage is not noarch. Please verify manually''"
  using CheckNoArch_verdict
          [of "spec0\<lparr>packages := [''a'', ''b''], expand_arch := (\<lambda>_. Some ''NoArch'')\<rparr>" check0]
        CheckNoArch_verdict
          [of "spec0\<lparr>packages := [''a'', ''b''],
                    expand_arch := (\<lambda>p. if p = ''a'' then Some ''NoArch'' else None)\<rparr>"
              check0 "[''a'']" "''b''" "[]"]
  by (simp add: spec0_def lower_NoArch)

subsection \<open>The backward scan for a comment\<close>

text \<open>The three phases of the loop: before the trigger, between the trigger and the pivot,
  and after the pivot.\<close>

lemma scan_lines_decide:
  "scan_lines trigger pivot judge True True ls c =
     (case find (\<lambda>l. \<not> pivot l \<and> \<not> list_all is_space l) ls of
        None \<Rightarrow> (None, c)
      | Some d \<Rightarrow> if judge d then (Some True, c) else (Some False, set_passed FAIL None c))"
  by (induction ls) (simp_all add: empty_regex_iff)

lemma scan_lines_pivot:
  "scan_lines trigger pivot judge True False ls c =
     scan_lines trigger pivot judge True True (drop 1 (dropWhile (\<lambda>l. \<not> pivot l) ls)) c"
  by (induction ls) simp_all

lemma scan_lines_trigger:
  "scan_lines trigger pivot judge False False ls c =
     scan_lines trigger pivot judge True False (dropWhile (\<lambda>l. \<not> trigger l) ls) c"
  by (induction ls) simp_all

text \<open>What the loop computes: the lines before the first trigger and the lines from there
  to the first pivot are passed over, and of the lines after that pivot the first one that is
  neither a pivot line nor blank is judged.\<close>

lemma search_previous_line_scan:
  "search_previous_line section trigger pivot judge c =
     (case find (\<lambda>l. \<not> pivot l \<and> \<not> list_all is_space l)
             (drop 1 (dropWhile (\<lambda>l. \<not> pivot l)
                (dropWhile (\<lambda>l. \<not> trigger l) (rev section)))) of
        None \<Rightarrow> (None, c)
      | Some d \<Rightarrow> if judge d then (Some True, c) else (Some False, set_passed FAIL None c))"
  by (simp only: search_previous_line_def scan_lines_trigger scan_lines_pivot scan_lines_decide)

text \<open>The section \<open>["# reason", "mvn-rpmbuild -Dmaven.test.skip"]\<close> gives True; a command
  line before the build line, with a blank line between, gives False and FAIL.\<close>

lemma search_previous_line_examples:
  "search_previous_line [''# reason'', ''mvn-rpmbuild -Dmaven.test.skip'']
     (contains ''-Dmaven.test.skip'') (contains ''mvn-rpmbuild'') (prefix ''#'') check0
   = (Some True, check0)
   \<and> search_previous_line [''rm -rf x'', [], ''mvn-rpmbuild -Dmaven.test.skip'']
     (contains ''-Dmaven.test.skip'') (contains ''mvn-rpmbuild'') (prefix ''#'') check0
   = (Some False, check0\<lparr>result := Some FAIL\<rparr>)"
  by (simp add: search_previous_line_scan is_space_def set_passed_def check0_def)

text \<open>
  C1.  After the trigger and the pivot have been seen, the scanner is to return True when the
  nearest earlier non-blank line matches the judge, and to return False and set the verdict
  to FAIL when it does not; on \<open>["mvn-rpmbuild -Dmaven.test.skip"]\<close>, the build line
  without a comment before it, it is to set FAIL and return False.  On that section the
  loop ends behind the pivot line: the function returns None and the verdict stays unset.
  The same happens when the only earlier line is a second build line, which matches the
  pivot and is passed over instead of being judged.
\<close>

theorem search_previous_line_no_earlier_line:
  "search_previous_line [''mvn-rpmbuild -Dmaven.test.skip'']
     (contains ''-Dmaven.test.skip'') (contains ''mvn-rpmbuild'') (prefix ''#'') check0
   = (None, check0)
   \<and> result check0 = None
   \<and> search_previous_line [''mvn-rpmbuild clean'', ''mvn-rpmbuild -Dmaven.test.skip'']
     (contains ''-Dmaven.test.skip'') (contains ''mvn-rpmbuild'') (prefix ''#'') check0
   = (None, check0)"
  by (simp add: search_previous_line_def check0_def)

end
